theory Spec2Isabelle
  imports Complex_Main
begin

section \<open>Data model\<close>

text \<open>
  Tensor entries are idealised as real numbers. A tensor of shape [B, D] is a list of B
  rows of D entries, one of shape [B, T, D] a list of B lists of T rows; tensors are
  taken to be rectangular. The only non-finite value the modelled code can make out of
  real entries is the nan of a mean over no elements; it is kept as \<open>None\<close> of type
  \<open>scalar\<close>.
\<close>

type_synonym tensor2 = "real list list"
type_synonym tensor3 = "real list list list"
type_synonym tensor4 = "real list list list list"
type_synonym scalar = "real option"

text \<open>
  The exceptions of the source. \<open>MixedModalities\<close> is the ValueError
  "Got mixed modalities, ..." raised by \<open>_modality_check\<close>; \<open>ValueError\<close> stands
  for the other ValueErrors (unpacking a shape of the wrong rank).
\<close>

datatype error =
    MixedModalities
  | KeyError string
  | IndexError
  | TypeError
  | ValueError
  | RuntimeError
  | AssertionError
  | ZeroDivisionError

text \<open>
  An entry of \<open>batch["obs"]\<close>: a low-dimensional channel of shape [B, d], the images
  of one camera (a tensor [B, C, H, W], kept abstract as \<open>'i\<close>), or the padding mask of
  shape [B, T, 1].
\<close>

datatype 'i obs_entry = LowDim tensor2 | Rgb 'i | Mask tensor3

text \<open>
  The batch that \<open>process_batch_for_training\<close> hands to the forward passes: the
  observation dictionary, the action tensor (present only when the action key was in the
  raw batch) and the \<open>type\<close> tag, flattened to the list of its elements.
\<close>

record 'i batch =
  obs :: "string \<rightharpoonup> 'i obs_entry"
  actions :: "tensor3 option"
  type_tag :: "int list"

text \<open>
  The latent parameters the policy returns: of rank 2 ([B, latent]) or of rank 4, the two
  ranks \<open>kl_divergence\<close> tells apart.
\<close>

datatype latent = Lat2 tensor2 | Lat4 tensor4

text \<open>
  One invocation of \<open>self.nets["policy"]\<close>: the positional arguments, the modality
  label (ACTSP only) and the keyword arguments \<open>actions\<close> and \<open>is_pad\<close>
  (None when left out).
\<close>

record 'i policy_call =
  qpos :: tensor2
  images :: "'i list"
  env_state :: tensor2
  modality_arg :: "string option"
  actions_arg :: "tensor3 option"
  is_pad_arg :: "bool list list option"

text \<open>The policy returns \<open>a_hat, is_pad_hat, (mu, logvar)\<close>.\<close>

type_synonym policy_out = "tensor3 \<times> tensor3 \<times> latent \<times> latent"

text \<open>
  The algorithm object. The external policy network and the two image transforms are
  parameters (functions); \<open>training\<close> is \<open>self.nets.training\<close>;
  \<open>step_counter\<close> is \<open>self._step_counter\<close>. \<open>policy_calls\<close> is
  instrumentation, not a field of the source: the arguments of every invocation of the
  policy, oldest first.
\<close>

record 'i act =
  camera_keys :: "string list"
  proprio_keys :: "string list"
  proprio_keys_hand :: "string list"
  chunk_size :: nat
  query_frequency :: int
  kl_weight :: real
  training :: bool
  step_counter :: int
  a_hat_store :: "tensor3 option"
  policy :: "'i policy_call \<Rightarrow> policy_out"
  color_jitter :: "'i \<Rightarrow> 'i"
  normalize :: "'i \<Rightarrow> 'i"
  policy_calls :: "'i policy_call list"

definition invoke_policy :: "'i act \<Rightarrow> 'i policy_call \<Rightarrow> policy_out \<times> 'i act" where
  "invoke_policy alg c = (policy alg c, alg\<lparr>policy_calls := policy_calls alg @ [c]\<rparr>)"

section \<open>Tensor operations\<close>

text \<open>A list comprehension whose body may raise: the first error ends it.\<close>

fun map_err :: "('a \<Rightarrow> error + 'b) \<Rightarrow> 'a list \<Rightarrow> error + 'b list" where
  "map_err f [] = Inr []"
| "map_err f (x # xs) =
     (case f x of Inl e \<Rightarrow> Inl e
      | Inr y \<Rightarrow> (case map_err f xs of Inl e \<Rightarrow> Inl e | Inr ys \<Rightarrow> Inr (y # ys)))"

text \<open>
  An elementwise binary operation along one axis, with torch's broadcasting: equal
  extents pair up, an extent of 1 is repeated, anything else is a RuntimeError.
\<close>

definition bcast :: "('a \<Rightarrow> 'b \<Rightarrow> error + 'c) \<Rightarrow> 'a list \<Rightarrow> 'b list \<Rightarrow> error + 'c list" where
  "bcast f xs ys =
     (if length xs = length ys then map_err (\<lambda>(x, y). f x y) (zip xs ys)
      else if length xs = 1 then map_err (f (hd xs)) ys
      else if length ys = 1 then map_err (\<lambda>x. f x (hd ys)) xs
      else Inl RuntimeError)"

definition bcast2 :: "(real \<Rightarrow> real \<Rightarrow> real) \<Rightarrow> tensor2 \<Rightarrow> tensor2 \<Rightarrow> error + tensor2" where
  "bcast2 f = bcast (bcast (\<lambda>x y. Inr (f x y)))"

definition bcast3 :: "(real \<Rightarrow> real \<Rightarrow> real) \<Rightarrow> tensor3 \<Rightarrow> tensor3 \<Rightarrow> error + tensor3" where
  "bcast3 f = bcast (bcast (bcast (\<lambda>x y. Inr (f x y))))"

text \<open>\<open>torch.cat(ts, axis=1)\<close> of tensors [B, d_k]: no tensor, or differing B, is a RuntimeError.\<close>

definition cat_axis1 :: "tensor2 list \<Rightarrow> error + tensor2" where
  "cat_axis1 ts =
     (case ts of [] \<Rightarrow> Inl RuntimeError
      | t # rest \<Rightarrow>
          if list_all (\<lambda>u. length u = length t) rest
          then Inr (map (\<lambda>b. concat (map (\<lambda>u. u ! b) ts)) [0..<length t])
          else Inl RuntimeError)"

text \<open>\<open>t.mean()\<close> over all elements: nan when there is none.\<close>

definition mean_list :: "real list \<Rightarrow> scalar" where
  "mean_list xs = (if xs = [] then None else Some (sum_list xs / real (length xs)))"

definition mean_all :: "tensor3 \<Rightarrow> scalar" where
  "mean_all t = mean_list (concat (concat t))"

section \<open>Modality check\<close>

text \<open>
  \<open>ACT._modality_check\<close>: \<open>(batch["type"] == 0).all()\<close> first, then
  \<open>(batch["type"] == 1).all()\<close>, otherwise the ValueError. \<open>all\<close> of a tensor
  with no element is True.
\<close>

definition modality_check :: "'i batch \<Rightarrow> error + string" where
  "modality_check batch =
     (if list_all (\<lambda>t. t = 0) (type_tag batch) then Inr ''robot''
      else if list_all (\<lambda>t. t = 1) (type_tag batch) then Inr ''hand''
      else Inl MixedModalities)"

section \<open>Batch-to-model projection\<close>

definition lookup_obs :: "(string \<rightharpoonup> 'i obs_entry) \<Rightarrow> string \<Rightarrow> error + 'i obs_entry" where
  "lookup_obs d k = (case d k of None \<Rightarrow> Inl (KeyError k) | Some v \<Rightarrow> Inr v)"

text \<open>
  \<open>torch.cat\<close> of the looked-up proprioceptive entries along axis 1. An entry that
  is not a low-dimensional channel has another rank and is reported as RuntimeError.
\<close>

definition as_low_dim :: "'i obs_entry \<Rightarrow> error + tensor2" where
  "as_low_dim e = (case e of LowDim t \<Rightarrow> Inr t | _ \<Rightarrow> Inl RuntimeError)"

text \<open>
  One turn of the camera loop: look the image up, colour-jitter it (when asked), then
  normalise. The jitter is random in the source; here it is a function. An entry that is
  not an image is reported as TypeError.
\<close>

definition load_image :: "'i act \<Rightarrow> bool \<Rightarrow> (string \<rightharpoonup> 'i obs_entry) \<Rightarrow> string \<Rightarrow> error + 'i" where
  "load_image alg jitter d cam_name =
     (case lookup_obs d cam_name of Inl e \<Rightarrow> Inl e
      | Inr (Rgb img) \<Rightarrow>
          Inr (normalize alg (if jitter then color_jitter alg img else img))
      | Inr _ \<Rightarrow> Inl TypeError)"

text \<open>
  \<open>is_pad = batch['obs']['pad_mask'] == 0\<close>, \<open>squeeze(dim=-1)\<close> and the unpacking
  \<open>B, T = is_pad.shape\<close>, which is a ValueError unless the squeezed tensor has rank 2.
\<close>

definition pad_indicator :: "'i obs_entry \<Rightarrow> error + bool list list" where
  "pad_indicator e =
     (case e of
        Mask m \<Rightarrow>
          if list_all (list_all (\<lambda>v. length v = 1)) m
          then Inr (map (map (\<lambda>v. hd v = 0)) m)
          else Inl ValueError
      | LowDim t \<Rightarrow>
          if t \<noteq> [] \<and> list_all (\<lambda>r. length r = 1) t then Inl ValueError
          else Inr (map (map (\<lambda>x. x = 0)) t)
      | Rgb _ \<Rightarrow> Inl ValueError)"

text \<open>
  \<open>ACT._robomimic_to_act_data\<close>. The result is
  \<open>(qpos, images, env_state, actions, is_pad)\<close>.
\<close>

definition robomimic_to_act_data ::
  "'i act \<Rightarrow> 'i batch \<Rightarrow> string list \<Rightarrow> string list
   \<Rightarrow> error + (tensor2 \<times> 'i list \<times> tensor2 \<times> tensor3 \<times> bool list list)" where
  "robomimic_to_act_data alg batch cam_keys prop_keys =
     (case map_err (lookup_obs (obs batch)) prop_keys of Inl e \<Rightarrow> Inl e
      | Inr entries \<Rightarrow>
     (case map_err as_low_dim entries of Inl e \<Rightarrow> Inl e
      | Inr proprio \<Rightarrow>
     (case cat_axis1 proprio of Inl e \<Rightarrow> Inl e
      | Inr qpos' \<Rightarrow>
     (case map_err (load_image alg True (obs batch)) cam_keys of Inl e \<Rightarrow> Inl e
      | Inr images' \<Rightarrow>
          if images' = [] then Inl RuntimeError
          else
     (let env_state' = replicate (length qpos') (replicate 10 0) in
     (case actions batch of None \<Rightarrow> Inl (KeyError ''actions'')
      | Some acts \<Rightarrow>
     (case lookup_obs (obs batch) ''pad_mask'' of Inl e \<Rightarrow> Inl e
      | Inr pm \<Rightarrow>
     (case pad_indicator pm of Inl e \<Rightarrow> Inl e
      | Inr is_pad \<Rightarrow>
          if list_all (\<lambda>r. length r = chunk_size alg) is_pad
          then Inr (qpos', images', env_state', acts, is_pad)
          else Inl AssertionError))))))))"

section \<open>KL divergence\<close>

text \<open>
  \<open>t.view(t.size(0), t.size(1))\<close> of a rank-4 tensor: every sample is flattened; the
  view exists only when that leaves \<open>size(1)\<close> entries per sample.
\<close>

definition view2 :: "latent \<Rightarrow> error + tensor2" where
  "view2 l =
     (case l of
        Lat2 t \<Rightarrow> Inr t
      | Lat4 t \<Rightarrow>
          (let rows = map (\<lambda>s. concat (map concat s)) t
           in if list_all (\<lambda>r. length r = length (hd t)) rows then Inr rows
              else Inl RuntimeError))"

definition latent_size0 :: "latent \<Rightarrow> nat" where
  "latent_size0 l = (case l of Lat2 t \<Rightarrow> length t | Lat4 t \<Rightarrow> length t)"

text \<open>
  \<open>ACT.kl_divergence\<close>. The result is
  \<open>(total_kld, dimension_wise_kld, mean_kld)\<close>; \<open>klds.mean(1)\<close> is nan for a latent
  of width 0.
\<close>

definition klds_of :: "tensor2 \<Rightarrow> tensor2 \<Rightarrow> error + tensor2" where
  "klds_of mu logvar =
     (case bcast2 (\<lambda>l m. 1 + l - m ^ 2) logvar mu of Inl e \<Rightarrow> Inl e
      | Inr a \<Rightarrow>
     (case bcast2 (\<lambda>x l. x - exp l) a logvar of Inl e \<Rightarrow> Inl e
      | Inr b \<Rightarrow> Inr (map (map (\<lambda>x. - 0.5 * x)) b)))"

definition mean_scalars :: "scalar list \<Rightarrow> scalar" where
  "mean_scalars xs = (if list_all (\<lambda>x. x \<noteq> None) xs then mean_list (map the xs) else None)"

definition kl_divergence ::
  "latent \<Rightarrow> latent \<Rightarrow> error + (real list \<times> real list \<times> scalar list)" where
  "kl_divergence mu logvar =
     (let batch_size = latent_size0 mu in
      if batch_size = 0 then Inl AssertionError
      else
     (case view2 mu of Inl e \<Rightarrow> Inl e
      | Inr mu2 \<Rightarrow>
     (case view2 logvar of Inl e \<Rightarrow> Inl e
      | Inr logvar2 \<Rightarrow>
     (case klds_of mu2 logvar2 of Inl e \<Rightarrow> Inl e
      | Inr klds \<Rightarrow>
          (let total_kld = [sum_list (map sum_list klds) / real (length klds)];
               dimension_wise_kld =
                 map (\<lambda>d. sum_list (map (\<lambda>r. r ! d) klds) / real (length klds))
                   [0..<length (hd klds)];
               mean_kld = [mean_scalars (map mean_list klds)]
           in Inr (total_kld, dimension_wise_kld, mean_kld))))))"

section \<open>Training forward pass\<close>

record train_predictions =
  pred_actions :: tensor3
  kl_loss :: real
  reconstruction_loss :: scalar

text \<open>
  \<open>(all_l1 * ~is_pad.unsqueeze(-1)).mean()\<close> with
  \<open>all_l1 = F.l1_loss(actions, a_hat, reduction='none')\<close>.
\<close>

definition masked_l1 :: "tensor3 \<Rightarrow> tensor3 \<Rightarrow> bool list list \<Rightarrow> error + scalar" where
  "masked_l1 acts a_hat is_pad =
     (case bcast3 (\<lambda>x y. \<bar>x - y\<bar>) acts a_hat of Inl e \<Rightarrow> Inl e
      | Inr all_l1 \<Rightarrow>
     (case bcast3 (\<lambda>x k. x * k) all_l1 (map (map (\<lambda>p. [if p then 0 else 1])) is_pad) of
        Inl e \<Rightarrow> Inl e
      | Inr masked \<Rightarrow> Inr (mean_all masked)))"

text \<open>
  The body shared by \<open>ACT._forward_training\<close> and \<open>ACTSP._forward_training\<close> from
  the call of \<open>_robomimic_to_act_data\<close> on; ACTSP passes the modality to the policy.
\<close>

definition training_pass ::
  "'i act \<Rightarrow> string option \<Rightarrow> 'i batch \<Rightarrow> string list \<Rightarrow> string list
   \<Rightarrow> (error + train_predictions) \<times> 'i act" where
  "training_pass alg modality batch cam_keys prop_keys =
     (case robomimic_to_act_data alg batch cam_keys prop_keys of Inl e \<Rightarrow> (Inl e, alg)
      | Inr (qpos', images', env_state', actions', is_pad) \<Rightarrow>
     (case invoke_policy alg
             \<lparr>qpos = qpos', images = images', env_state = env_state', modality_arg = modality,
              actions_arg = Some actions', is_pad_arg = Some is_pad\<rparr> of
        ((a_hat, is_pad_hat, mu, logvar), alg') \<Rightarrow>
     (case kl_divergence mu logvar of Inl e \<Rightarrow> (Inl e, alg')
      | Inr (total_kld, dim_wise_kld, mean_kld) \<Rightarrow>
     (case masked_l1 actions' a_hat is_pad of Inl e \<Rightarrow> (Inl e, alg')
      | Inr l1 \<Rightarrow>
          (Inr \<lparr>pred_actions = actions', kl_loss = hd total_kld, reconstruction_loss = l1\<rparr>,
           alg')))))"

definition ACT_forward_training :: "'i act \<Rightarrow> 'i batch \<Rightarrow> (error + train_predictions) \<times> 'i act" where
  "ACT_forward_training alg batch =
     training_pass alg None batch (camera_keys alg) (proprio_keys alg)"

text \<open>\<open>ACT._compute_losses\<close>: \<open>(recons_loss, kl_loss, action_loss)\<close>.\<close>

definition compute_losses :: "'i act \<Rightarrow> train_predictions \<Rightarrow> scalar \<times> real \<times> scalar" where
  "compute_losses alg predictions =
     (let kl = kl_loss predictions;
          recons_loss = reconstruction_loss predictions;
          action_loss = map_option (\<lambda>r. r + kl_weight alg * kl) recons_loss
      in (recons_loss, kl, action_loss))"

section \<open>Dual-modality variant\<close>

text \<open>
  \<open>batch["actions"] = batch["actions"][:, :, :3]\<close>: the batch is updated in place.
\<close>

definition truncate_actions :: "'i batch \<Rightarrow> error + 'i batch" where
  "truncate_actions batch =
     (case actions batch of None \<Rightarrow> Inl (KeyError ''actions'')
      | Some a \<Rightarrow> Inr (batch\<lparr>actions := Some (map (map (take 3)) a)\<rparr>))"

definition select_cam_keys :: "'i act \<Rightarrow> string \<Rightarrow> string list" where
  "select_cam_keys alg modality =
     (if modality = ''robot'' then camera_keys alg else take 1 (camera_keys alg))"

definition select_proprio_keys :: "'i act \<Rightarrow> string \<Rightarrow> string list" where
  "select_proprio_keys alg modality =
     (if modality = ''hand'' then proprio_keys_hand alg else proprio_keys alg)"

text \<open>
  \<open>ACTSP._forward_training\<close>. The result comes with the batch as the call leaves it
  and the algorithm object.
\<close>

definition ACTSP_forward_training ::
  "'i act \<Rightarrow> 'i batch \<Rightarrow> (error + train_predictions) \<times> 'i batch \<times> 'i act" where
  "ACTSP_forward_training alg batch =
     (case modality_check batch of Inl e \<Rightarrow> (Inl e, batch, alg)
      | Inr modality \<Rightarrow>
     (case (if modality = ''hand'' then truncate_actions batch else Inr batch) of
        Inl e \<Rightarrow> (Inl e, batch, alg)
      | Inr batch' \<Rightarrow>
          (let cam_keys = select_cam_keys alg modality;
               prop_keys = select_proprio_keys alg modality;
               (res, alg') = training_pass alg (Some modality) batch' cam_keys prop_keys
           in (res, batch', alg'))))"

text \<open>
  The evaluation pass from the call of \<open>_robomimic_to_act_data\<close> on: the policy is
  called with \<open>actions=None\<close> and the prediction is \<open>a_hat\<close>.
\<close>

definition eval_pass ::
  "'i act \<Rightarrow> string option \<Rightarrow> 'i batch \<Rightarrow> string list \<Rightarrow> string list
   \<Rightarrow> (error + tensor3) \<times> 'i act" where
  "eval_pass alg modality batch cam_keys prop_keys =
     (case robomimic_to_act_data alg batch cam_keys prop_keys of Inl e \<Rightarrow> (Inl e, alg)
      | Inr (qpos', images', env_state', actions', is_pad) \<Rightarrow>
     (case invoke_policy alg
             \<lparr>qpos = qpos', images = images', env_state = env_state', modality_arg = modality,
              actions_arg = None, is_pad_arg = Some is_pad\<rparr> of
        ((a_hat, is_pad_hat, mu, logvar), alg') \<Rightarrow> (Inr a_hat, alg')))"

text \<open>
  \<open>ACTSP.forward_eval\<close>: the modality check runs first and its answer is then
  replaced by the probe for the key "right_wrist_img".
\<close>

definition ACTSP_forward_eval ::
  "'i act \<Rightarrow> 'i batch \<Rightarrow> (error + tensor3) \<times> 'i batch \<times> 'i act" where
  "ACTSP_forward_eval alg batch =
     (case modality_check batch of Inl e \<Rightarrow> (Inl e, batch, alg)
      | Inr checked \<Rightarrow>
          (let modality = (if ''right_wrist_img'' \<in> dom (obs batch) then ''robot'' else ''hand'')
           in
     (case (if modality = ''hand'' then truncate_actions batch else Inr batch) of
        Inl e \<Rightarrow> (Inl e, batch, alg)
      | Inr batch' \<Rightarrow>
          (let cam_keys = select_cam_keys alg modality;
               prop_keys = select_proprio_keys alg modality;
               (res, alg') = eval_pass alg (Some modality) batch' cam_keys prop_keys
           in (res, batch', alg')))))"

section \<open>Chunked inference\<close>

text \<open>
  The part of \<open>ACT.get_action\<close> before the cache: the proprioceptive state, the
  normalised images (no colour jitter here) and the placeholder environment state.
\<close>

definition action_inputs ::
  "'i act \<Rightarrow> (string \<rightharpoonup> 'i obs_entry) \<Rightarrow> error + (tensor2 \<times> 'i list \<times> tensor2)" where
  "action_inputs alg obs_dict =
     (case map_err (lookup_obs obs_dict) (proprio_keys alg) of Inl e \<Rightarrow> Inl e
      | Inr entries \<Rightarrow>
     (case map_err as_low_dim entries of Inl e \<Rightarrow> Inl e
      | Inr proprio \<Rightarrow>
     (case cat_axis1 proprio of Inl e \<Rightarrow> Inl e
      | Inr qpos' \<Rightarrow>
     (case map_err (load_image alg False obs_dict) (camera_keys alg) of Inl e \<Rightarrow> Inl e
      | Inr images' \<Rightarrow>
          if images' = [] then Inl RuntimeError
          else Inr (qpos', images', replicate (length qpos') (replicate 10 0))))))"

text \<open>The call \<open>self.nets["policy"](qpos, images, env_state)\<close>, keyword arguments left out.\<close>

definition policy_query :: "tensor2 \<times> 'i list \<times> tensor2 \<Rightarrow> 'i policy_call" where
  "policy_query x =
     (case x of (qpos', images', env_state') \<Rightarrow>
        \<lparr>qpos = qpos', images = images', env_state = env_state',
         modality_arg = None, actions_arg = None, is_pad_arg = None\<rparr>)"

text \<open>
  Subscripting one axis with an integer: positions \<open>0 .. len - 1\<close> read from the
  front, positions \<open>- len .. - 1\<close> from the back, every other position raises.
\<close>

definition py_index :: "'a list \<Rightarrow> int \<Rightarrow> error + 'a" where
  "py_index xs i =
     (if 0 \<le> i \<and> i < int (length xs) then Inr (xs ! nat i)
      else if i < 0 \<and> - int (length xs) \<le> i then Inr (xs ! nat (int (length xs) + i))
      else Inl IndexError)"

text \<open>\<open>t[:, i, :]\<close>.\<close>

definition select_step :: "tensor3 \<Rightarrow> int \<Rightarrow> error + tensor2" where
  "select_step t i = map_err (\<lambda>sample. py_index sample i) t"

text \<open>
  \<open>ACT.get_action\<close>. The object is returned as the call leaves it, also when the call
  raises.
\<close>

definition get_action ::
  "'i act \<Rightarrow> (string \<rightharpoonup> 'i obs_entry) \<Rightarrow> (error + tensor2) \<times> 'i act" where
  "get_action alg obs_dict =
     (if training alg then (Inl AssertionError, alg)
      else
     (case action_inputs alg obs_dict of Inl e \<Rightarrow> (Inl e, alg)
      | Inr (qpos', images', env_state') \<Rightarrow>
          if query_frequency alg = 0 then (Inl ZeroDivisionError, alg)
          else
            (let alg1 =
               (if step_counter alg mod query_frequency alg = 0
                then
                  (case invoke_policy alg (policy_query (qpos', images', env_state')) of
                     ((a_hat, is_pad_hat, mu, logvar), alg') \<Rightarrow> alg'\<lparr>a_hat_store := Some a_hat\<rparr>)
                else alg)
             in
            (case a_hat_store alg1 of None \<Rightarrow> (Inl TypeError, alg1)
             | Some store \<Rightarrow>
            (case select_step store (step_counter alg1 mod query_frequency alg1) of
               Inl e \<Rightarrow> (Inl e, alg1)
             | Inr action \<Rightarrow> (Inr action, alg1\<lparr>step_counter := step_counter alg1 + 1\<rparr>))))))"

text \<open>\<open>ACT.reset\<close>.\<close>

definition reset :: "'i act \<Rightarrow> 'i act" where
  "reset alg = alg\<lparr>step_counter := 0\<rparr>"

text \<open>
  A rollout: \<open>get_action\<close> once per observation, in order; the results are collected
  oldest first.
\<close>

definition rollout_step ::
  "(error + tensor2) list \<times> 'i act \<Rightarrow> (string \<rightharpoonup> 'i obs_entry) \<Rightarrow> (error + tensor2) list \<times> 'i act" where
  "rollout_step st obs_dict =
     (case get_action (snd st) obs_dict of (r, alg') \<Rightarrow> (fst st @ [r], alg'))"

definition rollout ::
  "'i act \<Rightarrow> (string \<rightharpoonup> 'i obs_entry) list \<Rightarrow> (error + tensor2) list \<times> 'i act" where
  "rollout alg os = foldl rollout_step ([], alg) os"

section \<open>Normalisation\<close>

text \<open>
  \<open>general_norm\<close> and \<open>general_unnorm\<close> of simarUtils.py, on an array flattened to
  the list of its elements. \<open>array.min()\<close> of an empty array is a ValueError. A division
  by zero is not an exception in numpy: it gives inf or nan entries, which the reals do
  not have; the model reports it as \<open>None\<close>.
\<close>

definition np_min :: "real list \<Rightarrow> error + real" where
  "np_min xs = (if xs = [] then Inl ValueError else Inr (Min (set xs)))"

definition np_max :: "real list \<Rightarrow> error + real" where
  "np_max xs = (if xs = [] then Inl ValueError else Inr (Max (set xs)))"

definition general_norm ::
  "real list \<Rightarrow> real \<Rightarrow> real \<Rightarrow> real option \<Rightarrow> real option \<Rightarrow> error + real list option" where
  "general_norm array min_val max_val arr_min arr_max =
     (case (case arr_min of None \<Rightarrow> np_min array | Some v \<Rightarrow> Inr v) of Inl e \<Rightarrow> Inl e
      | Inr lo \<Rightarrow>
     (case (case arr_max of None \<Rightarrow> np_max array | Some v \<Rightarrow> Inr v) of Inl e \<Rightarrow> Inl e
      | Inr hi \<Rightarrow>
          if hi - lo = 0 \<and> array \<noteq> [] then Inr None
          else Inr (Some (map (\<lambda>x. (max_val - min_val) * ((x - lo) / (hi - lo)) + min_val) array))))"

definition general_unnorm :: "real list \<Rightarrow> real \<Rightarrow> real \<Rightarrow> real \<Rightarrow> real \<Rightarrow> real list option" where
  "general_unnorm array orig_min orig_max min_val max_val =
     (if max_val - min_val = 0 \<and> array \<noteq> [] then None
      else Some (map (\<lambda>x. ((x - min_val) / (max_val - min_val)) * (orig_max - orig_min) + orig_min) array))"

section \<open>Metric accumulation\<close>

record metrics =
  paired_mse :: "real list list"
  final_mse :: "real list list"

text \<open>numpy raises ValueError where operands cannot be broadcast together.\<close>

definition np_bcast :: "error + 'a \<Rightarrow> error + 'a" where
  "np_bcast r = (case r of Inl e \<Rightarrow> Inl ValueError | Inr v \<Rightarrow> Inr v)"

text \<open>
  \<open>add_metrics\<close> of val_utils.py, on arrays of shape [T, D]. The mean over axis 0 of
  at least one row is finite; with no row, \<open>pred_values[-1]\<close> or \<open>actions[-1]\<close> is
  an IndexError.
\<close>

definition add_metrics :: "metrics \<Rightarrow> tensor2 \<Rightarrow> tensor2 \<Rightarrow> error + metrics" where
  "add_metrics m acts pred_values =
     (case np_bcast (bcast2 (\<lambda>p a. p - a) pred_values acts) of Inl e \<Rightarrow> Inl e
      | Inr diff \<Rightarrow>
     (let sq = map (map (\<lambda>x. (x * 100) ^ 2)) diff;
          paired = map (\<lambda>d. sum_list (map (\<lambda>r. r ! d) sq) / real (length sq)) [0..<length (hd sq)]
      in
     (case py_index pred_values (- 1) of Inl e \<Rightarrow> Inl e
      | Inr pred_last \<Rightarrow>
     (case py_index acts (- 1) of Inl e \<Rightarrow> Inl e
      | Inr act_last \<Rightarrow>
     (case np_bcast (bcast (\<lambda>p a. Inr (p - a)) pred_last act_last) of Inl e \<Rightarrow> Inl e
      | Inr dlast \<Rightarrow>
          Inr (m\<lparr>paired_mse := paired_mse m @ [paired],
                 final_mse := final_mse m @ [map (\<lambda>x. (x * 100) ^ 2) dlast]\<rparr>))))))"

section \<open>Notions used by the statements\<close>

text \<open>
  The chunk a forward pass on an observation predicts, and what the cache needs of it: a
  non-empty batch whose samples have at least \<open>query_frequency\<close> timesteps.
\<close>

definition predict_chunk :: "'i act \<Rightarrow> (string \<rightharpoonup> 'i obs_entry) \<Rightarrow> error + tensor3" where
  "predict_chunk alg obs_dict =
     (case action_inputs alg obs_dict of Inl e \<Rightarrow> Inl e
      | Inr x \<Rightarrow> Inr (fst (policy alg (policy_query x))))"

text \<open>Two algorithm objects that differ at most in counter, cache and invocation log.\<close>

definition same_config :: "'i act \<Rightarrow> 'i act \<Rightarrow> bool" where
  "same_config st alg =
     (camera_keys st = camera_keys alg \<and> proprio_keys st = proprio_keys alg
      \<and> normalize st = normalize alg \<and> policy st = policy alg
      \<and> training st = training alg \<and> query_frequency st = query_frequency alg)"

definition chunk_ok :: "int \<Rightarrow> tensor3 \<Rightarrow> bool" where
  "chunk_ok qf c = (c \<noteq> [] \<and> list_all (\<lambda>sample. qf \<le> int (length sample)) c)"

text \<open>
  What \<open>ACTSP.forward_eval\<close> does once a modality is fixed: the truncation for
  "hand", the key selection, the projection and the call of the policy.
\<close>

definition eval_with_modality ::
  "'i act \<Rightarrow> string \<Rightarrow> 'i batch \<Rightarrow> (error + tensor3) \<times> 'i batch \<times> 'i act" where
  "eval_with_modality alg modality batch =
     (case (if modality = ''hand'' then truncate_actions batch else Inr batch) of
        Inl e \<Rightarrow> (Inl e, batch, alg)
      | Inr batch' \<Rightarrow>
          (case eval_pass alg (Some modality) batch' (select_cam_keys alg modality)
                  (select_proprio_keys alg modality) of
             (res, alg') \<Rightarrow> (res, batch', alg')))"

definition zeros2 :: "nat \<Rightarrow> nat \<Rightarrow> tensor2" where
  "zeros2 b d = replicate b (replicate d 0)"

definition has_shape3 :: "nat \<Rightarrow> nat \<Rightarrow> nat \<Rightarrow> tensor3 \<Rightarrow> bool" where
  "has_shape3 b t d x =
     (length x = b \<and> list_all (\<lambda>s. length s = t \<and> list_all (\<lambda>v. length v = d) s) x)"

section \<open>A synthetic batch\<close>

text \<open>
  Two samples, chunk length 5, action dimension 3, robot data, nothing padded; a policy
  that predicts the ground truth when it is given (zeros otherwise) with a standard-normal
  latent of width 4.
\<close>

definition ex_obs :: "string \<rightharpoonup> unit obs_entry" where
  "ex_obs =
     [''front_img_1'' \<mapsto> Rgb (), ''right_wrist_img'' \<mapsto> Rgb (),
      ''joint_positions'' \<mapsto> LowDim [[1, 2], [3, 4]],
      ''ee_pose'' \<mapsto> LowDim [[5], [6]],
      ''pad_mask'' \<mapsto> Mask (replicate 2 (replicate 5 [1]))]"

definition ex_batch :: "unit batch" where
  "ex_batch =
     \<lparr>obs = ex_obs, actions = Some (replicate 2 (replicate 5 [1, 2, 3])), type_tag = [0, 0]\<rparr>"

definition ex_hand_batch :: "unit batch" where
  "ex_hand_batch =
     \<lparr>obs = ex_obs, actions = Some (replicate 2 (replicate 5 [1, 2, 3, 4])), type_tag = [1, 1]\<rparr>"

definition ex_policy :: "unit policy_call \<Rightarrow> policy_out" where
  "ex_policy c =
     ((case actions_arg c of Some a \<Rightarrow> a
       | None \<Rightarrow> replicate (length (qpos c)) (replicate 5 [0, 0, 0])),
      [], Lat2 (zeros2 (length (qpos c)) 4), Lat2 (zeros2 (length (qpos c)) 4))"

definition ex_alg :: "unit act" where
  "ex_alg =
     \<lparr>camera_keys = [''front_img_1'', ''right_wrist_img''],
      proprio_keys = [''joint_positions''],
      proprio_keys_hand = [''ee_pose''],
      chunk_size = 5, query_frequency = 5, kl_weight = 10, training = False,
      step_counter = 0, a_hat_store = None,
      policy = ex_policy, color_jitter = (\<lambda>i. i), normalize = (\<lambda>i. i),
      policy_calls = []\<rparr>"

section \<open>Lemmas on the tensor operations\<close>

lemma map_err_total: "map_err (\<lambda>x. Inr (g x)) xs = Inr (map g xs)"
  by (induction xs) simp_all

lemma map_err_cong_Inr:
  "(\<And>x. x \<in> set xs \<Longrightarrow> f x = Inr (g x)) \<Longrightarrow> map_err f xs = Inr (map g xs)"
  by (induction xs) simp_all

lemma bcast_same_length:
  assumes "length xs = length ys"
      and "\<And>x y. (x, y) \<in> set (zip xs ys) \<Longrightarrow> f x y = Inr (g x y)"
  shows "bcast f xs ys = Inr (map (\<lambda>(x, y). g x y) (zip xs ys))"
proof -
  have "map_err (\<lambda>(x, y). f x y) (zip xs ys) = Inr (map (\<lambda>(x, y). g x y) (zip xs ys))"
    by (rule map_err_cong_Inr) (use assms(2) in auto)
  then show ?thesis using assms(1) by (simp add: bcast_def)
qed

lemma bcast_replicate:
  assumes "f a b = Inr c"
  shows "bcast f (replicate n a) (replicate n b) = Inr (replicate n c)"
proof -
  have "bcast f (replicate n a) (replicate n b)
        = Inr (map (\<lambda>(x, y). c) (zip (replicate n a) (replicate n b)))"
    by (rule bcast_same_length) (use assms in \<open>auto simp: zip_replicate\<close>)
  then show ?thesis by (simp add: zip_replicate map_replicate_const)
qed

lemma bcast2_replicate:
  "bcast2 f (replicate b (replicate d x)) (replicate b (replicate d y))
   = Inr (replicate b (replicate d (f x y)))"
  unfolding bcast2_def by (intro bcast_replicate) simp

lemma klds_of_zeros: "klds_of (zeros2 b d) (zeros2 b d) = Inr (zeros2 b d)"
  by (simp add: klds_of_def zeros2_def bcast2_replicate)

lemma sum_list_replicate_zero: "sum_list (replicate n (0::real)) = 0"
  by (induction n) simp_all

lemma kl_divergence_zeros2:
  assumes "0 < b"
  shows "kl_divergence (Lat2 (zeros2 b d)) (Lat2 (zeros2 b d))
         = Inr ([0], replicate d 0, [if d = 0 then None else Some 0])"
proof -
  have hd0: "hd (zeros2 b d) = replicate d 0"
    using assms by (cases b) (simp_all add: zeros2_def)
  have len: "length (zeros2 b d) = b" by (simp add: zeros2_def)
  have tot: "sum_list (map sum_list (zeros2 b d)) = 0"
    by (simp add: zeros2_def sum_list_replicate_zero)
  have dw: "map (\<lambda>k. sum_list (map (\<lambda>r. r ! k) (zeros2 b d)) / real b) [0..<d] = replicate d 0"
  proof -
    have "map (\<lambda>k. sum_list (map (\<lambda>r. r ! k) (zeros2 b d)) / real b) [0..<d]
          = map (\<lambda>k. 0) [0..<d]"
      by (rule map_cong) (simp_all add: zeros2_def sum_list_replicate_zero)
    then show ?thesis by (simp add: map_replicate_const)
  qed
  have mk: "mean_scalars (map mean_list (zeros2 b d)) = (if d = 0 then None else Some 0)"
    using assms
    by (cases b) (simp_all add: zeros2_def mean_scalars_def mean_list_def sum_list_replicate_zero list_all_iff)
  show ?thesis
    using assms
    by (simp add: kl_divergence_def latent_size0_def view2_def klds_of_zeros len hd0 tot dw mk)
qed

lemma bcast_self:
  assumes "\<And>x. x \<in> set xs \<Longrightarrow> f x x = Inr (g x)"
  shows "bcast f xs xs = Inr (map g xs)"
proof -
  have "bcast f xs xs = Inr (map (\<lambda>(x, y). g x) (zip xs xs))"
    by (rule bcast_same_length) (use assms in \<open>auto simp: zip_same\<close>)
  also have "map (\<lambda>(x, y). g x) (zip xs xs) = map g xs"
    by (induction xs) simp_all
  finally show ?thesis .
qed

lemma abs_diff_self3:
  "bcast3 (\<lambda>x y. \<bar>x - y\<bar>) a a = Inr (map (map (map (\<lambda>x. 0))) a)"
  unfolding bcast3_def
  by (intro bcast_self) simp

lemma bcast_keep_left:
  assumes "length xs = length ys"
      and "\<And>x y. (x, y) \<in> set (zip xs ys) \<Longrightarrow> f x y = Inr x"
  shows "bcast f xs ys = Inr xs"
proof -
  have "bcast f xs ys = Inr (map (\<lambda>(x, y). x) (zip xs ys))"
    by (rule bcast_same_length) (use assms in auto)
  also have "map (\<lambda>(x, y). x) (zip xs ys) = xs"
    using assms(1) by (induction xs ys rule: list_induct2) simp_all
  finally show ?thesis .
qed

lemma zero_row_times_mask:
  assumes "\<And>x. x \<in> set v \<Longrightarrow> x = 0"
  shows "bcast (\<lambda>x k. Inr (x * k)) v [k::real] = Inr v"
proof (cases "length v = 1")
  case True
  then obtain x where v: "v = [x]" by (cases v) auto
  with assms have "x = 0" by simp
  with v show ?thesis by (simp add: bcast_def)
next
  case False
  have "map_err (\<lambda>x. Inr (x * k)) v = Inr (map (\<lambda>x. x * k) v)"
    by (rule map_err_total)
  also have "map (\<lambda>x. x * k) v = v"
    using assms by (induction v) simp_all
  finally show ?thesis using False by (simp add: bcast_def)
qed

lemma zero3_times_mask:
  assumes z: "\<And>s v x. s \<in> set z \<Longrightarrow> v \<in> set s \<Longrightarrow> x \<in> set v \<Longrightarrow> x = 0"
      and len: "length z = length p"
      and rows: "\<And>s r. (s, r) \<in> set (zip z p) \<Longrightarrow> length s = length r"
  shows "bcast3 (\<lambda>x k. x * k) z (map (map (\<lambda>q. [if q then 0 else 1])) p) = Inr z"
  unfolding bcast3_def
proof (rule bcast_keep_left)
  show "length z = length (map (map (\<lambda>q. [if q then 0 else 1])) p)"
    using len by simp
next
  fix s m
  assume "(s, m) \<in> set (zip z (map (map (\<lambda>q. [if q then 0 else 1::real])) p))"
  then obtain r where sr: "(s, r) \<in> set (zip z p)" and m: "m = map (\<lambda>q. [if q then 0 else 1]) r"
    by (auto simp: zip_map2)
  from sr have sz: "s \<in> set z" by (rule set_zip_leftD)
  show "bcast (bcast (\<lambda>x y. Inr (x * y))) s m = Inr s"
  proof (rule bcast_keep_left)
    show "length s = length m" using rows [OF sr] m by simp
  next
    fix v k
    assume "(v, k) \<in> set (zip s m)"
    then have vs: "v \<in> set s" and km: "k \<in> set m"
      by (auto dest: set_zip_leftD set_zip_rightD)
    from km m obtain c where k: "k = [c]" by auto
    have "\<And>x. x \<in> set v \<Longrightarrow> x = 0" using z [OF sz vs] by simp
    then show "bcast (\<lambda>x y. Inr (x * y)) v k = Inr v"
      unfolding k by (rule zero_row_times_mask)
  qed
qed

lemma mean_list_zero:
  assumes "xs \<noteq> []" and "\<And>x. x \<in> set xs \<Longrightarrow> x = 0"
  shows "mean_list xs = Some 0"
proof -
  have "sum_list xs = 0" using assms(2) by (induction xs) simp_all
  with assms(1) show ?thesis by (simp add: mean_list_def)
qed

lemma masked_l1_exact:
  assumes sh: "has_shape3 b t d a" and pos: "0 < b" "0 < t" "0 < d"
      and len: "length p = b" and rows: "list_all (\<lambda>r. length r = t) p"
  shows "masked_l1 a a p = Inr (Some 0)"
proof -
  let ?z = "map (map (map (\<lambda>x. 0::real))) a"
  have z: "\<And>s v x. s \<in> set ?z \<Longrightarrow> v \<in> set s \<Longrightarrow> x \<in> set v \<Longrightarrow> x = 0" by auto
  have la: "length a = b" and sa: "\<And>s. s \<in> set a \<Longrightarrow> length s = t"
    and va: "\<And>s v. s \<in> set a \<Longrightarrow> v \<in> set s \<Longrightarrow> length v = d"
    using sh by (auto simp: has_shape3_def list_all_iff)
  have rz: "\<And>s r. (s, r) \<in> set (zip ?z p) \<Longrightarrow> length s = length r"
  proof -
    fix s r assume "(s, r) \<in> set (zip ?z p)"
    then have "s \<in> set ?z" and "r \<in> set p"
      by (auto dest: set_zip_leftD set_zip_rightD)
    then show "length s = length r"
      using sa rows by (auto simp: list_all_iff)
  qed
  have m: "bcast3 (\<lambda>x k. x * k) ?z (map (map (\<lambda>q. [if q then 0 else 1])) p) = Inr ?z"
    by (rule zero3_times_mask [OF z _ rz]) (simp_all add: la len)
  have "a \<noteq> []" using la pos(1) by auto
  then have s0: "hd a \<in> set a" by simp
  have "hd a \<noteq> []" using sa [OF s0] pos(2) by auto
  then have v0: "hd (hd a) \<in> set (hd a)" by simp
  have x0: "hd (hd a) \<noteq> []" using va [OF s0 v0] pos(3) by auto
  have ne: "concat (concat ?z) \<noteq> []"
    using s0 v0 x0 by (auto simp: concat_eq_Nil_conv intro!: bexI [of _ "hd a"] bexI [of _ "hd (hd a)"])
  have "mean_all ?z = Some 0"
    unfolding mean_all_def by (rule mean_list_zero [OF ne]) auto
  then show ?thesis
    by (simp add: masked_l1_def abs_diff_self3 m)
qed

lemma training_pass_exact:
  assumes proj: "robomimic_to_act_data alg batch cams props = Inr (q, ims, es, a, p)"
      and pol: "policy alg \<lparr>qpos = q, images = ims, env_state = es, modality_arg = m,
                  actions_arg = Some a, is_pad_arg = Some p\<rparr>
                = (a, ph, Lat2 (zeros2 b l), Lat2 (zeros2 b l))"
      and sh: "has_shape3 b t d a" and pos: "0 < b" "0 < t" "0 < d"
      and len: "length p = b" and rows: "list_all (\<lambda>r. length r = t) p"
  shows "training_pass alg m batch cams props
         = (Inr \<lparr>pred_actions = a, kl_loss = 0, reconstruction_loss = Some 0\<rparr>,
            alg\<lparr>policy_calls := policy_calls alg @
               [\<lparr>qpos = q, images = ims, env_state = es, modality_arg = m,
                 actions_arg = Some a, is_pad_arg = Some p\<rparr>]\<rparr>)"
  using masked_l1_exact [OF sh pos len rows] kl_divergence_zeros2 [OF pos(1), of l]
  by (simp add: training_pass_def proj invoke_policy_def pol)

section \<open>The synthetic batch, evaluated\<close>

lemma ex_obs_simps:
  "ex_obs ''front_img_1'' = Some (Rgb ())"
  "ex_obs ''right_wrist_img'' = Some (Rgb ())"
  "ex_obs ''joint_positions'' = Some (LowDim [[1, 2], [3, 4]])"
  "ex_obs ''ee_pose'' = Some (LowDim [[5], [6]])"
  "ex_obs ''pad_mask'' = Some (Mask (replicate 2 (replicate 5 [1])))"
  by (simp_all add: ex_obs_def)

lemma r2: "replicate 2 x = [x, x]" by (simp add: numeral_2_eq_2)
lemma r5: "replicate 5 x = [x, x, x, x, x]" by (simp add: eval_nat_numeral)
lemma upt2: "[0..<2] = [0, 1]" by (simp add: numeral_2_eq_2)

lemma ex_projection_robot:
  "robomimic_to_act_data ex_alg (b\<lparr>obs := ex_obs, actions := Some a\<rparr>)
     [''front_img_1'', ''right_wrist_img''] [''joint_positions'']
   = Inr ([[1, 2], [3, 4]], [(), ()], replicate 2 (replicate 10 0), a,
          replicate 2 (replicate 5 False))"
  by (simp add: robomimic_to_act_data_def lookup_obs_def ex_obs_simps as_low_dim_def
      cat_axis1_def load_image_def pad_indicator_def ex_alg_def r2 r5 upt2)

lemma ex_projection_hand:
  "robomimic_to_act_data ex_alg (b\<lparr>obs := ex_obs, actions := Some a\<rparr>)
     [''front_img_1''] [''ee_pose'']
   = Inr ([[5], [6]], [()], replicate 2 (replicate 10 0), a,
          replicate 2 (replicate 5 False))"
  by (simp add: robomimic_to_act_data_def lookup_obs_def ex_obs_simps as_low_dim_def
      cat_axis1_def load_image_def pad_indicator_def ex_alg_def r2 r5 upt2)

lemma ex_batch_upd: "ex_batch\<lparr>obs := ex_obs, actions := Some (replicate 2 (replicate 5 [1, 2, 3]))\<rparr> = ex_batch"
  by (simp add: ex_batch_def)

lemma ex_shape: "has_shape3 2 5 3 (replicate 2 (replicate 5 [1, 2, 3]))"
  by (simp add: has_shape3_def r2 r5)

section \<open>Mixed batches\<close>

text \<open>
  C4. A batch whose \<open>type\<close> tag is neither all 0 nor all 1 (so it has an element,
  and holds both values or some other value) makes the modality check raise the
  mixed-modalities error; \<open>ACTSP._forward_training\<close> ends with that error, leaves
  batch and object as they were, and the policy has not been invoked.
\<close>

theorem mixed_batch_raises:
  assumes "\<not> list_all (\<lambda>t. t = 0) (type_tag batch)"
      and "\<not> list_all (\<lambda>t. t = 1) (type_tag batch)"
  shows "modality_check batch = Inl MixedModalities
         \<and> ACTSP_forward_training alg batch = (Inl MixedModalities, batch, alg)
         \<and> policy_calls (snd (snd (ACTSP_forward_training alg batch))) = policy_calls alg"
  using assms by (simp add: modality_check_def ACTSP_forward_training_def)

theorem mixed_batch_raises_witness:
  "\<not> list_all (\<lambda>t. t = 0) (type_tag (ex_batch\<lparr>type_tag := [0, 1]\<rparr>))
   \<and> \<not> list_all (\<lambda>t. t = 1) (type_tag (ex_batch\<lparr>type_tag := [0, 1]\<rparr>))
   \<and> ACTSP_forward_training ex_alg (ex_batch\<lparr>type_tag := [0, 1]\<rparr>)
       = (Inl MixedModalities, ex_batch\<lparr>type_tag := [0, 1]\<rparr>, ex_alg)
   \<and> policy_calls (snd (snd (ACTSP_forward_training ex_alg (ex_batch\<lparr>type_tag := [0, 1]\<rparr>)))) = []"
proof -
  have a: "\<not> list_all (\<lambda>t. t = 0) (type_tag (ex_batch\<lparr>type_tag := [0, 1]\<rparr>))" by simp
  have b: "\<not> list_all (\<lambda>t. t = 1) (type_tag (ex_batch\<lparr>type_tag := [0, 1]\<rparr>))" by simp
  show ?thesis
    using a b mixed_batch_raises [OF a b, of ex_alg] by (simp add: ex_alg_def)
qed

section \<open>Routing of uniform batches\<close>

text \<open>
  C6. A batch whose tag is non-empty and all 0 resolves to "robot"; the training pass of
  ACTSP then runs on the full camera-key list and the full robot proprioceptive-key list,
  on the batch as it came (actions at full width).
\<close>

theorem robot_batch_routing:
  assumes "type_tag batch \<noteq> []" and "list_all (\<lambda>t. t = 0) (type_tag batch)"
  shows "modality_check batch = Inr ''robot''
         \<and> select_cam_keys alg ''robot'' = camera_keys alg
         \<and> select_proprio_keys alg ''robot'' = proprio_keys alg
         \<and> ACTSP_forward_training alg batch =
             (fst (training_pass alg (Some ''robot'') batch (camera_keys alg) (proprio_keys alg)),
              batch,
              snd (training_pass alg (Some ''robot'') batch (camera_keys alg) (proprio_keys alg)))"
  using assms
  by (simp add: modality_check_def ACTSP_forward_training_def select_cam_keys_def
      select_proprio_keys_def split: prod.splits)

theorem robot_batch_routing_witness:
  "type_tag ex_batch \<noteq> [] \<and> list_all (\<lambda>t. t = 0) (type_tag ex_batch)
   \<and> modality_check ex_batch = Inr ''robot''
   \<and> select_cam_keys ex_alg ''robot'' = [''front_img_1'', ''right_wrist_img'']
   \<and> select_proprio_keys ex_alg ''robot'' = [''joint_positions'']
   \<and> fst (snd (ACTSP_forward_training ex_alg ex_batch)) = ex_batch"
proof -
  have a: "type_tag ex_batch \<noteq> []" by (simp add: ex_batch_def)
  have b: "list_all (\<lambda>t. t = 0) (type_tag ex_batch)" by (simp add: ex_batch_def)
  have c: "camera_keys ex_alg = [''front_img_1'', ''right_wrist_img'']"
    and p: "proprio_keys ex_alg = [''joint_positions'']"
    by (simp_all add: ex_alg_def)
  show ?thesis
    using a b robot_batch_routing [OF a b, of ex_alg] by (simp add: c p)
qed

text \<open>
  C5. A batch whose tag is non-empty and all 1 resolves to "hand"; the training pass of
  ACTSP then runs on the first camera key only and on the hand proprioceptive keys, with
  every action vector cut to its first 3 components (exactly 3 when it had at least 3).
\<close>

theorem hand_batch_routing:
  assumes "type_tag batch \<noteq> []" and "list_all (\<lambda>t. t = 1) (type_tag batch)"
      and "actions batch = Some a"
  shows "modality_check batch = Inr ''hand''
         \<and> select_cam_keys alg ''hand'' = take 1 (camera_keys alg)
         \<and> (camera_keys alg \<noteq> [] \<longrightarrow> select_cam_keys alg ''hand'' = [hd (camera_keys alg)])
         \<and> select_proprio_keys alg ''hand'' = proprio_keys_hand alg
         \<and> ACTSP_forward_training alg batch =
             (let batch' = batch\<lparr>actions := Some (map (map (take 3)) a)\<rparr>;
                  r = training_pass alg (Some ''hand'') batch' (take 1 (camera_keys alg))
                        (proprio_keys_hand alg)
              in (fst r, batch', snd r))
         \<and> (list_all (list_all (\<lambda>v. 3 \<le> length v)) a
              \<longrightarrow> list_all (list_all (\<lambda>v. length v = 3)) (map (map (take 3)) a))"
proof -
  from assms(1,2) have n0: "\<not> list_all (\<lambda>t. t = 0) (type_tag batch)"
    by (cases "type_tag batch") auto
  have mc: "modality_check batch = Inr ''hand''"
    using n0 assms(2) by (simp add: modality_check_def)
  have fw: "ACTSP_forward_training alg batch =
             (let batch' = batch\<lparr>actions := Some (map (map (take 3)) a)\<rparr>;
                  r = training_pass alg (Some ''hand'') batch' (take 1 (camera_keys alg))
                        (proprio_keys_hand alg)
              in (fst r, batch', snd r))"
    using mc assms(3)
    by (simp add: ACTSP_forward_training_def truncate_actions_def select_cam_keys_def
        select_proprio_keys_def Let_def split: prod.splits)
  have tr: "list_all (list_all (\<lambda>v. 3 \<le> length v)) a
              \<longrightarrow> list_all (list_all (\<lambda>v. length v = 3)) (map (map (take 3)) a)"
    by (auto simp: list_all_iff)
  have ck: "camera_keys alg \<noteq> [] \<longrightarrow> select_cam_keys alg ''hand'' = [hd (camera_keys alg)]"
    by (cases "camera_keys alg") (simp_all add: select_cam_keys_def)
  show ?thesis using mc fw tr ck
    by (simp add: select_cam_keys_def select_proprio_keys_def)
qed

theorem hand_batch_routing_witness:
  "type_tag ex_hand_batch \<noteq> []
   \<and> list_all (\<lambda>t. t = 1) (type_tag ex_hand_batch)
   \<and> actions ex_hand_batch = Some (replicate 2 (replicate 5 [1, 2, 3, 4]))
   \<and> modality_check ex_hand_batch = Inr ''hand''
   \<and> select_cam_keys ex_alg ''hand'' = [''front_img_1'']
   \<and> select_proprio_keys ex_alg ''hand'' = [''ee_pose'']
   \<and> actions (fst (snd (ACTSP_forward_training ex_alg ex_hand_batch)))
       = Some (replicate 2 (replicate 5 [1, 2, 3]))"
proof -
  have a: "type_tag ex_hand_batch \<noteq> []" by (simp add: ex_hand_batch_def)
  have b: "list_all (\<lambda>t. t = 1) (type_tag ex_hand_batch)" by (simp add: ex_hand_batch_def)
  have c: "actions ex_hand_batch = Some (replicate 2 (replicate 5 [1, 2, 3, 4]))"
    by (simp add: ex_hand_batch_def)
  have k: "camera_keys ex_alg = [''front_img_1'', ''right_wrist_img'']"
    and p: "proprio_keys_hand ex_alg = [''ee_pose'']"
    by (simp_all add: ex_alg_def)
  show ?thesis
    using a b c hand_batch_routing [OF a b c, of ex_alg] by (simp add: k p Let_def)
qed

section \<open>KL divergence of a standard-normal latent\<close>

text \<open>
  C7, as amended. For \<open>mu\<close> and \<open>logvar\<close> identically zero, of any batch size
  \<open>b \<ge> 1\<close> and any latent width \<open>d\<close>, the batch-mean total KL divergence is
  exactly 0 (and so is every per-dimension mean).
\<close>

theorem kl_standard_normal_zero:
  assumes "0 < b"
  shows "kl_divergence (Lat2 (zeros2 b d)) (Lat2 (zeros2 b d))
         = Inr ([0], replicate d 0, [if d = 0 then None else Some 0])"
  using assms by (rule kl_divergence_zeros2)

theorem kl_standard_normal_zero_witness:
  "(0::nat) < 2 \<and> kl_divergence (Lat2 (zeros2 2 3)) (Lat2 (zeros2 2 3))
         = Inr ([0], [0, 0, 0], [Some 0])"
proof -
  have h: "(0::nat) < 2" by simp
  show ?thesis using kl_standard_normal_zero [OF h, of 3] by (simp add: eval_nat_numeral)
qed

text \<open>
  C7 as stated fails at batch size 0: the assertion \<open>batch_size != 0\<close> stops the
  computation before any value is returned.
\<close>

theorem kl_empty_batch_counterexample:
  "kl_divergence (Lat2 (zeros2 0 3)) (Lat2 (zeros2 0 3)) = Inl AssertionError"
  by (simp add: kl_divergence_def latent_size0_def zeros2_def)

section \<open>The end-to-end scenario\<close>

text \<open>
  C8. A batch of 2 samples, chunk length 5, action dimension 3, tag all 0, nothing padded,
  with a policy that returns the ground-truth actions and zero \<open>mu\<close> and
  \<open>logvar\<close>: the training pass (of ACT, and of ACTSP) gives reconstruction loss 0 and
  KL loss 0, and \<open>_compute_losses\<close> gives action loss 0 for any KL weight.
\<close>

theorem synthetic_training_step:
  assumes proj: "robomimic_to_act_data alg batch (camera_keys alg) (proprio_keys alg)
                 = Inr (q, ims, es, a, replicate 2 (replicate 5 False))"
      and shape: "has_shape3 2 5 3 a"
      and tag: "type_tag batch = [0, 0]"
      and pol: "\<And>m. \<exists>ph. policy alg \<lparr>qpos = q, images = ims, env_state = es, modality_arg = m,
                    actions_arg = Some a, is_pad_arg = Some (replicate 2 (replicate 5 False))\<rparr>
                  = (a, ph, Lat2 (zeros2 2 l), Lat2 (zeros2 2 l))"
  shows "fst (ACT_forward_training alg batch)
           = Inr \<lparr>pred_actions = a, kl_loss = 0, reconstruction_loss = Some 0\<rparr>
         \<and> fst (ACTSP_forward_training alg batch)
           = Inr \<lparr>pred_actions = a, kl_loss = 0, reconstruction_loss = Some 0\<rparr>
         \<and> compute_losses alg \<lparr>pred_actions = a, kl_loss = 0, reconstruction_loss = Some 0\<rparr>
           = (Some 0, 0, Some 0)"
proof -
  let ?p = "replicate 2 (replicate 5 False)"
  have len: "length ?p = 2" and rows: "list_all (\<lambda>r. length r = 5) ?p"
    by (simp_all add: list_all_iff)
  have pass: "fst (training_pass alg m batch (camera_keys alg) (proprio_keys alg))
              = Inr \<lparr>pred_actions = a, kl_loss = 0, reconstruction_loss = Some 0\<rparr>" for m
  proof -
    from pol [of m] obtain ph where
      "policy alg \<lparr>qpos = q, images = ims, env_state = es, modality_arg = m,
                    actions_arg = Some a, is_pad_arg = Some ?p\<rparr>
       = (a, ph, Lat2 (zeros2 2 l), Lat2 (zeros2 2 l))" ..
    from training_pass_exact [OF proj this shape _ _ _ len rows] show ?thesis by simp
  qed
  have act: "fst (ACT_forward_training alg batch)
           = Inr \<lparr>pred_actions = a, kl_loss = 0, reconstruction_loss = Some 0\<rparr>"
    by (simp add: ACT_forward_training_def pass)
  have mc: "modality_check batch = Inr ''robot''"
    by (simp add: modality_check_def tag)
  have sp: "fst (ACTSP_forward_training alg batch)
           = Inr \<lparr>pred_actions = a, kl_loss = 0, reconstruction_loss = Some 0\<rparr>"
    using pass [of "Some ''robot''"]
    by (simp add: ACTSP_forward_training_def mc select_cam_keys_def select_proprio_keys_def
        case_prod_unfold)
  have cl: "compute_losses alg \<lparr>pred_actions = a, kl_loss = 0, reconstruction_loss = Some 0\<rparr>
           = (Some 0, 0, Some 0)"
    by (simp add: compute_losses_def)
  show ?thesis using act sp cl by simp
qed

theorem synthetic_training_step_witness:
  "fst (ACT_forward_training ex_alg ex_batch)
     = Inr \<lparr>pred_actions = replicate 2 (replicate 5 [1, 2, 3]), kl_loss = 0,
            reconstruction_loss = Some 0\<rparr>
   \<and> fst (ACTSP_forward_training ex_alg ex_batch)
     = Inr \<lparr>pred_actions = replicate 2 (replicate 5 [1, 2, 3]), kl_loss = 0,
            reconstruction_loss = Some 0\<rparr>
   \<and> compute_losses ex_alg
       \<lparr>pred_actions = replicate 2 (replicate 5 [1, 2, 3]), kl_loss = 0,
        reconstruction_loss = Some 0\<rparr> = (Some 0, 0, Some 0)"
proof -
  have proj: "robomimic_to_act_data ex_alg ex_batch (camera_keys ex_alg) (proprio_keys ex_alg)
       = Inr ([[1, 2], [3, 4]], [(), ()], replicate 2 (replicate 10 0),
              replicate 2 (replicate 5 [1, 2, 3]), replicate 2 (replicate 5 False))"
    using ex_projection_robot [where b = ex_batch and a = "replicate 2 (replicate 5 [1, 2, 3])"]
    by (simp add: ex_batch_upd) (simp add: ex_alg_def)
  have tag: "type_tag ex_batch = [0, 0]" by (simp add: ex_batch_def)
  have pol: "\<exists>ph. policy ex_alg \<lparr>qpos = [[1, 2], [3, 4]], images = [(), ()],
                 env_state = replicate 2 (replicate 10 0), modality_arg = m,
                 actions_arg = Some (replicate 2 (replicate 5 [1, 2, 3])),
                 is_pad_arg = Some (replicate 2 (replicate 5 False))\<rparr>
              = (replicate 2 (replicate 5 [1, 2, 3]), ph, Lat2 (zeros2 2 4), Lat2 (zeros2 2 4))" for m
    by (simp add: ex_alg_def ex_policy_def numeral_2_eq_2)
  show ?thesis
    by (rule synthetic_training_step [OF proj ex_shape tag pol])
qed

section \<open>Evaluation-time modality\<close>

lemma projection_same_inputs:
  assumes "obs b1 = obs b2" and "actions b1 = actions b2"
  shows "robomimic_to_act_data alg b1 c p = robomimic_to_act_data alg b2 c p"
  using assms
  by (simp add: robomimic_to_act_data_def Let_def split: sum.splits option.splits)

lemma eval_pass_same_inputs:
  assumes "obs b1 = obs b2" and "actions b1 = actions b2"
  shows "eval_pass alg m b1 c p = eval_pass alg m b2 c p"
  by (simp add: eval_pass_def projection_same_inputs [OF assms])

lemma eval_with_modality_ignores_tag:
  "fst (eval_with_modality alg m (batch\<lparr>type_tag := tg\<rparr>)) = fst (eval_with_modality alg m batch)
   \<and> snd (snd (eval_with_modality alg m (batch\<lparr>type_tag := tg\<rparr>)))
      = snd (snd (eval_with_modality alg m batch))"
proof (cases "m = ''hand''")
  case False
  have "eval_pass alg (Some m) (batch\<lparr>type_tag := tg\<rparr>) c p = eval_pass alg (Some m) batch c p"
    for c p
    by (rule eval_pass_same_inputs) simp_all
  with False show ?thesis
    by (simp add: eval_with_modality_def case_prod_unfold)
next
  case True
  show ?thesis
  proof (cases "actions batch")
    case None
    then show ?thesis using True by (simp add: eval_with_modality_def truncate_actions_def)
  next
    case (Some a)
    have "eval_pass alg (Some m) (batch\<lparr>type_tag := tg, actions := Some (map (map (take 3)) a)\<rparr>) c p
          = eval_pass alg (Some m) (batch\<lparr>actions := Some (map (map (take 3)) a)\<rparr>) c p"
      for c p
      by (rule eval_pass_same_inputs) simp_all
    then show ?thesis using True Some
      by (simp add: eval_with_modality_def truncate_actions_def case_prod_unfold)
  qed
qed

text \<open>
  C3, as amended. \<open>ACTSP.forward_eval\<close> first runs the modality check, which raises
  on a mixed tag; when the check passes, the modality is the answer of the probe for
  "right_wrist_img" in the observations (present: "robot", absent: "hand"), whatever the
  tag says, and any two tags that pass the check give the same prediction and the same
  policy invocations.
\<close>

theorem eval_modality_from_camera_probe:
  "ACTSP_forward_eval alg batch
     = (case modality_check batch of
          Inl e \<Rightarrow> (Inl e, batch, alg)
        | Inr checked \<Rightarrow>
            eval_with_modality alg
              (if ''right_wrist_img'' \<in> dom (obs batch) then ''robot'' else ''hand'') batch)
   \<and> (modality_check batch = Inr m \<and> modality_check (batch\<lparr>type_tag := tg\<rparr>) = Inr m'
        \<longrightarrow> fst (ACTSP_forward_eval alg (batch\<lparr>type_tag := tg\<rparr>))
              = fst (ACTSP_forward_eval alg batch)
            \<and> snd (snd (ACTSP_forward_eval alg (batch\<lparr>type_tag := tg\<rparr>)))
              = snd (snd (ACTSP_forward_eval alg batch)))"
proof -
  have unf: "ACTSP_forward_eval alg b
     = (case modality_check b of
          Inl e \<Rightarrow> (Inl e, b, alg)
        | Inr checked \<Rightarrow>
            eval_with_modality alg
              (if ''right_wrist_img'' \<in> dom (obs b) then ''robot'' else ''hand'') b)" for b :: "'a batch"
    by (simp add: ACTSP_forward_eval_def eval_with_modality_def Let_def split: sum.splits)
  have ind: "fst (ACTSP_forward_eval alg (batch\<lparr>type_tag := tg\<rparr>))
              = fst (ACTSP_forward_eval alg batch)
            \<and> snd (snd (ACTSP_forward_eval alg (batch\<lparr>type_tag := tg\<rparr>)))
              = snd (snd (ACTSP_forward_eval alg batch))"
    if "modality_check batch = Inr m" "modality_check (batch\<lparr>type_tag := tg\<rparr>) = Inr m'"
    using that eval_with_modality_ignores_tag [where alg = alg and batch = batch and tg = tg]
    by (simp add: unf)
  show ?thesis using unf [of batch] ind by blast
qed


theorem eval_modality_from_camera_probe_witness:
  "modality_check ex_batch = Inr ''robot''
   \<and> modality_check (ex_batch\<lparr>type_tag := [1, 1]\<rparr>) = Inr ''hand''
   \<and> fst (ACTSP_forward_eval ex_alg (ex_batch\<lparr>type_tag := [1, 1]\<rparr>))
       = fst (ACTSP_forward_eval ex_alg ex_batch)
   \<and> snd (snd (ACTSP_forward_eval ex_alg (ex_batch\<lparr>type_tag := [1, 1]\<rparr>)))
       = snd (snd (ACTSP_forward_eval ex_alg ex_batch))"
proof -
  have a: "modality_check ex_batch = Inr ''robot''"
    by (simp add: modality_check_def ex_batch_def)
  have b: "modality_check (ex_batch\<lparr>type_tag := [1, 1]\<rparr>) = Inr ''hand''"
    by (simp add: modality_check_def)
  show ?thesis
    using a b eval_modality_from_camera_probe
      [where alg = ex_alg and batch = ex_batch and tg = "[1, 1]" and m = "''robot''"
         and m' = "''hand''"]
    by blast
qed

text \<open>
  C3 as stated fails: with "right_wrist_img" present, a tag of all 0 lets the evaluation
  run as "robot", and the mixed tag [0, 1] on the same observations ends it with the
  mixed-modalities error before the policy is invoked.
\<close>

theorem eval_tag_matters_counterexample:
  "''right_wrist_img'' \<in> dom (obs ex_batch)
   \<and> fst (ACTSP_forward_eval ex_alg ex_batch) = Inr (replicate 2 (replicate 5 [0, 0, 0]))
   \<and> ACTSP_forward_eval ex_alg (ex_batch\<lparr>type_tag := [0, 1]\<rparr>)
       = (Inl MixedModalities, ex_batch\<lparr>type_tag := [0, 1]\<rparr>, ex_alg)"
proof -
  have d: "''right_wrist_img'' \<in> dom (obs ex_batch)"
    by (simp add: ex_batch_def ex_obs_def)
  have mc: "modality_check ex_batch = Inr ''robot''"
    by (simp add: modality_check_def ex_batch_def)
  have k: "select_cam_keys ex_alg ''robot'' = [''front_img_1'', ''right_wrist_img'']"
    and p: "select_proprio_keys ex_alg ''robot'' = [''joint_positions'']"
    by (simp_all add: select_cam_keys_def select_proprio_keys_def ex_alg_def)
  have proj: "robomimic_to_act_data ex_alg ex_batch [''front_img_1'', ''right_wrist_img'']
                [''joint_positions'']
       = Inr ([[1, 2], [3, 4]], [(), ()], replicate 2 (replicate 10 0),
              replicate 2 (replicate 5 [1, 2, 3]), replicate 2 (replicate 5 False))"
    using ex_projection_robot [where b = ex_batch and a = "replicate 2 (replicate 5 [1, 2, 3])"]
    by (simp add: ex_batch_upd)
  have pol: "policy ex_alg = ex_policy" by (simp add: ex_alg_def)
  have ok: "fst (ACTSP_forward_eval ex_alg ex_batch) = Inr (replicate 2 (replicate 5 [0, 0, 0]))"
    using d
    by (simp add: ACTSP_forward_eval_def mc k p eval_pass_def proj invoke_policy_def pol
        ex_policy_def numeral_2_eq_2)
  have bad: "ACTSP_forward_eval ex_alg (ex_batch\<lparr>type_tag := [0, 1]\<rparr>)
       = (Inl MixedModalities, ex_batch\<lparr>type_tag := [0, 1]\<rparr>, ex_alg)"
    by (simp add: ACTSP_forward_eval_def modality_check_def)
  show ?thesis using d ok bad by simp
qed

section \<open>Normalisation round trip\<close>

text \<open>
  C2, as amended. Over the reals, for \<open>lo < hi\<close> and any array \<open>x\<close> (inside
  \<open>[lo, hi]\<close> or not), \<open>general_norm(x, -1, 1, lo, hi)\<close> followed by
  \<open>general_unnorm(result, lo, hi, -1, 1)\<close> returns \<open>x\<close>: the original range
  comes first among the arguments of \<open>general_unnorm\<close>.
\<close>

theorem norm_unnorm_roundtrip:
  assumes "lo < hi"
  shows "\<exists>y. general_norm x (- 1) 1 (Some lo) (Some hi) = Inr (Some y)
             \<and> general_unnorm y lo hi (- 1) 1 = Some x"
proof -
  let ?y = "map (\<lambda>v. (1 - (- 1)) * ((v - lo) / (hi - lo)) + (- 1)) x"
  have n: "general_norm x (- 1) 1 (Some lo) (Some hi) = Inr (Some ?y)"
    using assms by (simp add: general_norm_def)
  have pt: "((1 - (- 1)) * ((v - lo) / (hi - lo)) + (- 1) - (- 1)) / (1 - (- 1)) * (hi - lo) + lo = v"
    for v :: real
    using assms by (simp add: field_simps)
  have "map (\<lambda>v. ((v - (- 1)) / (1 - (- 1))) * (hi - lo) + lo) ?y
        = map (\<lambda>v. ((1 - (- 1)) * ((v - lo) / (hi - lo)) + (- 1) - (- 1)) / (1 - (- 1)) * (hi - lo) + lo) x"
    unfolding map_map o_def ..
  also have "\<dots> = x"
    unfolding pt by simp
  finally have "map (\<lambda>v. ((v - (- 1)) / (1 - (- 1))) * (hi - lo) + lo) ?y = x" .
  then have u: "general_unnorm ?y lo hi (- 1) 1 = Some x"
    by (simp add: general_unnorm_def)
  from n u show ?thesis by blast
qed

theorem norm_unnorm_roundtrip_witness:
  "(0::real) < 2 \<and> (\<exists>y. general_norm [0, 1, 2] (- 1) 1 (Some 0) (Some 2) = Inr (Some y)
             \<and> general_unnorm y 0 2 (- 1) 1 = Some [0, 1, 2])"
proof -
  have h: "(0::real) < 2" by simp
  show ?thesis using h norm_unnorm_roundtrip [OF h, of "[0, 1, 2]"] by simp
qed

text \<open>
  C2 as stated fails: \<open>general_unnorm(y, -1, 1, lo, hi)\<close> maps \<open>[lo, hi]\<close> to
  \<open>[-1, 1]\<close> once more. At \<open>lo = 0\<close>, \<open>hi = 1\<close>, \<open>x = [0]\<close> the result is
  \<open>[-3]\<close>.
\<close>

theorem norm_unnorm_claimed_order_counterexample:
  "general_norm [0] (- 1) 1 (Some 0) (Some 1) = Inr (Some [- 1])
   \<and> general_unnorm [- 1] (- 1) 1 0 1 = Some [- 3]
   \<and> [- 3] \<noteq> [0::real]"
  by (simp add: general_norm_def general_unnorm_def)

section \<open>Metric accumulation on a constant offset\<close>

text \<open>
  C9. For a ground truth of 10 steps [0, 0, 0] and predictions of 10 steps [1, 0, 0],
  \<open>add_metrics\<close> appends [10000, 0, 0] to \<open>paired_mse\<close> and [10000, 0, 0] to
  \<open>final_mse\<close>.
\<close>

theorem add_metrics_offset:
  "add_metrics \<lparr>paired_mse = ps, final_mse = fs\<rparr>
     (replicate 10 [0, 0, 0]) (replicate 10 [1, 0, 0])
   = Inr \<lparr>paired_mse = ps @ [[10000, 0, 0]], final_mse = fs @ [[10000, 0, 0]]\<rparr>"
proof -
  have r10: "replicate 10 x = [x, x, x, x, x, x, x, x, x, x]" for x :: "real list"
    by (simp add: eval_nat_numeral)
  have u3: "[0..<3] = [0, 1, 2]" by (simp add: eval_nat_numeral)
  show ?thesis
    by (simp add: add_metrics_def np_bcast_def bcast2_def bcast_def py_index_def r10 u3)
qed

section \<open>The chunked-inference cache\<close>

lemma action_inputs_same_config:
  assumes "same_config st alg"
  shows "action_inputs st obs_dict = action_inputs alg obs_dict"
proof -
  have "load_image st False obs_dict = load_image alg False obs_dict"
    using assms
    by (intro ext) (simp add: load_image_def same_config_def split: sum.splits obs_entry.splits)
  moreover have "camera_keys st = camera_keys alg" "proprio_keys st = proprio_keys alg"
    using assms by (simp_all add: same_config_def)
  ultimately show ?thesis
    unfolding action_inputs_def by (simp only:)
qed

lemma py_index_in_range:
  assumes "0 \<le> i" and "i < int (length xs)"
  shows "py_index xs i = Inr (xs ! nat i)"
  using assms by (simp add: py_index_def)

lemma select_step_in_range:
  assumes "chunk_ok qf c" and "0 \<le> i" and "i < qf"
  shows "select_step c i = Inr (map (\<lambda>sample. sample ! nat i) c)"
  unfolding select_step_def
proof (rule map_err_cong_Inr)
  fix s assume "s \<in> set c"
  with assms(1) have "qf \<le> int (length s)" by (simp add: chunk_ok_def list_all_iff)
  with assms(2,3) show "py_index s i = Inr (s ! nat i)"
    by (intro py_index_in_range) simp_all
qed

lemma get_action_refill:
  assumes cfg: "same_config st alg" and tr: "\<not> training alg" and qf: "0 < query_frequency alg"
      and cnt: "step_counter st mod query_frequency alg = 0"
      and inp: "action_inputs alg obs_dict = Inr x"
      and ok: "chunk_ok (query_frequency alg) (fst (policy alg (policy_query x)))"
  shows "get_action st obs_dict
         = (Inr (map (\<lambda>sample. sample ! 0) (fst (policy alg (policy_query x)))),
            st\<lparr>policy_calls := policy_calls st @ [policy_query x],
               a_hat_store := Some (fst (policy alg (policy_query x))),
               step_counter := step_counter st + 1\<rparr>)"
proof -
  obtain q ims es where x: "x = (q, ims, es)" by (cases x)
  obtain a ph mu lv where p: "policy alg (policy_query (q, ims, es)) = (a, ph, mu, lv)"
    by (cases "policy alg (policy_query (q, ims, es))")
  have sel: "select_step a 0 = Inr (map (\<lambda>sample. sample ! nat 0) a)"
    using ok qf by (intro select_step_in_range [of "query_frequency alg"]) (simp_all add: x p)
  have c: "training st = training alg" "query_frequency st = query_frequency alg"
    "policy st = policy alg"
    using cfg by (simp_all add: same_config_def)
  show ?thesis
    using tr qf cnt sel
    by (simp add: get_action_def c action_inputs_same_config [OF cfg] inp x invoke_policy_def p)
qed

lemma get_action_cached:
  assumes cfg: "same_config st alg" and tr: "\<not> training alg" and qf: "0 < query_frequency alg"
      and cnt: "step_counter st mod query_frequency alg \<noteq> 0"
      and inp: "action_inputs alg obs_dict = Inr x"
      and st: "a_hat_store st = Some c" and ok: "chunk_ok (query_frequency alg) c"
  shows "get_action st obs_dict
         = (Inr (map (\<lambda>sample. sample ! nat (step_counter st mod query_frequency alg)) c),
            st\<lparr>step_counter := step_counter st + 1\<rparr>)"
proof -
  obtain q ims es where x: "x = (q, ims, es)" by (cases x)
  have sel: "select_step c (step_counter st mod query_frequency alg)
             = Inr (map (\<lambda>sample. sample ! nat (step_counter st mod query_frequency alg)) c)"
    using ok qf by (intro select_step_in_range [of "query_frequency alg"]) simp_all
  have c: "training st = training alg" "query_frequency st = query_frequency alg"
    using cfg by (simp_all add: same_config_def)
  show ?thesis
    using tr qf cnt sel
    by (simp add: get_action_def c action_inputs_same_config [OF cfg] inp x st)
qed

lemma rollout_take_Suc:
  assumes "k < length os"
  shows "rollout alg (take (Suc k) os) = rollout_step (rollout alg (take k os)) (os ! k)"
  using assms by (simp add: rollout_def take_Suc_conv_app_nth)

lemma int_mod_nat:
  assumes "0 < qf"
  shows "int k mod qf = int (k mod nat qf)"
  using assms by (simp add: zmod_int)

lemma window_start_Suc:
  assumes "Suc k mod q \<noteq> 0"
  shows "Suc k - Suc k mod q = k - k mod q"
  using assms by (simp add: mod_Suc split: if_splits)

lemma predict_chunkD:
  assumes "predict_chunk alg obs_dict = Inr c"
  obtains x where "action_inputs alg obs_dict = Inr x" and "c = fst (policy alg (policy_query x))"
  using assms by (auto simp: predict_chunk_def split: sum.splits)

lemma same_config_reset: "same_config (reset alg) alg"
  by (simp add: same_config_def reset_def)

text \<open>
  One call from an object whose counter is \<open>k\<close> and whose cache, when \<open>k\<close> is
  not a multiple of the query frequency, holds the chunk predicted at the start of the
  current window.
\<close>

lemma get_action_at_step:
  assumes tr: "\<not> training alg" and qf: "0 < query_frequency alg"
      and H: "\<forall>obs_dict \<in> set os. \<exists>c. predict_chunk alg obs_dict = Inr c \<and> chunk_ok (query_frequency alg) c"
      and k: "k < length os"
      and cfg: "same_config st alg" and cnt: "step_counter st = int k"
      and cache: "k mod nat (query_frequency alg) \<noteq> 0 \<longrightarrow>
                  (\<exists>c. predict_chunk alg (os ! (k - k mod nat (query_frequency alg))) = Inr c
                        \<and> a_hat_store st = Some c)"
  shows "\<exists>x c. action_inputs alg (os ! k) = Inr x
           \<and> predict_chunk alg (os ! (k - k mod nat (query_frequency alg))) = Inr c
           \<and> get_action st (os ! k)
               = (Inr (map (\<lambda>sample. sample ! (k mod nat (query_frequency alg))) c),
                  st\<lparr>policy_calls :=
                        (if k mod nat (query_frequency alg) = 0
                         then policy_calls st @ [policy_query x] else policy_calls st),
                     a_hat_store := Some c,
                     step_counter := int k + 1\<rparr>)"
proof -
  let ?q = "nat (query_frequency alg)"
  have m: "step_counter st mod query_frequency alg = int (k mod ?q)"
    using cnt int_mod_nat [OF qf] by simp
  from k have mem: "os ! k \<in> set os" by simp
  with H obtain c0 where c0: "predict_chunk alg (os ! k) = Inr c0"
    and ok0: "chunk_ok (query_frequency alg) c0" by blast
  from c0 obtain x where x: "action_inputs alg (os ! k) = Inr x"
    and cx: "c0 = fst (policy alg (policy_query x))" by (rule predict_chunkD)
  show ?thesis
  proof (cases "k mod ?q = 0")
    case True
    have "get_action st (os ! k)
         = (Inr (map (\<lambda>sample. sample ! 0) c0),
            st\<lparr>policy_calls := policy_calls st @ [policy_query x],
               a_hat_store := Some c0,
               step_counter := step_counter st + 1\<rparr>)"
      unfolding cx
      by (rule get_action_refill [OF cfg tr qf _ x]) (use m True ok0 cx in simp_all)
    then have "action_inputs alg (os ! k) = Inr x
           \<and> predict_chunk alg (os ! (k - k mod ?q)) = Inr c0
           \<and> get_action st (os ! k)
               = (Inr (map (\<lambda>sample. sample ! (k mod ?q)) c0),
                  st\<lparr>policy_calls :=
                        (if k mod ?q = 0
                         then policy_calls st @ [policy_query x] else policy_calls st),
                     a_hat_store := Some c0,
                     step_counter := int k + 1\<rparr>)"
      using True x c0 cnt by simp
    then show ?thesis by (intro exI [of _ x] exI [of _ c0])
  next
    case False
    with cache obtain c where c: "predict_chunk alg (os ! (k - k mod ?q)) = Inr c"
      and st: "a_hat_store st = Some c" by blast
    have "k - k mod ?q < length os" using k by simp
    then have "os ! (k - k mod ?q) \<in> set os" by simp
    with H c have ok: "chunk_ok (query_frequency alg) c" by fastforce
    have "get_action st (os ! k)
         = (Inr (map (\<lambda>sample. sample ! nat (step_counter st mod query_frequency alg)) c),
            st\<lparr>step_counter := step_counter st + 1\<rparr>)"
      by (rule get_action_cached [OF cfg tr qf _ x st ok]) (use m False in simp)
    moreover have "st\<lparr>step_counter := step_counter st + 1\<rparr>
                   = st\<lparr>policy_calls := policy_calls st, a_hat_store := Some c,
                        step_counter := int k + 1\<rparr>"
      using st cnt by simp
    ultimately have "action_inputs alg (os ! k) = Inr x
           \<and> predict_chunk alg (os ! (k - k mod ?q)) = Inr c
           \<and> get_action st (os ! k)
               = (Inr (map (\<lambda>sample. sample ! (k mod ?q)) c),
                  st\<lparr>policy_calls :=
                        (if k mod ?q = 0
                         then policy_calls st @ [policy_query x] else policy_calls st),
                     a_hat_store := Some c,
                     step_counter := int k + 1\<rparr>)"
      using False x c m by simp
    then show ?thesis by (intro exI [of _ x] exI [of _ c])
  qed
qed

lemma rollout_invariant:
  assumes tr: "\<not> training alg" and qf: "0 < query_frequency alg"
      and H: "\<forall>obs_dict \<in> set os. \<exists>c. predict_chunk alg obs_dict = Inr c \<and> chunk_ok (query_frequency alg) c"
      and k: "k \<le> length os"
  shows "same_config (snd (rollout (reset alg) (take k os))) alg
         \<and> step_counter (snd (rollout (reset alg) (take k os))) = int k
         \<and> (k mod nat (query_frequency alg) \<noteq> 0 \<longrightarrow>
              (\<exists>c. predict_chunk alg (os ! (k - k mod nat (query_frequency alg))) = Inr c
                    \<and> a_hat_store (snd (rollout (reset alg) (take k os))) = Some c))"
  using k
proof (induction k)
  case 0
  show ?case by (simp add: rollout_def same_config_reset) (simp add: reset_def)
next
  case (Suc k)
  let ?q = "nat (query_frequency alg)"
  let ?st = "snd (rollout (reset alg) (take k os))"
  from Suc.prems have k: "k < length os" by simp
  from Suc.IH k have cfg: "same_config ?st alg" and cnt: "step_counter ?st = int k"
    and cache: "k mod ?q \<noteq> 0 \<longrightarrow>
                  (\<exists>c. predict_chunk alg (os ! (k - k mod ?q)) = Inr c \<and> a_hat_store ?st = Some c)"
    by simp_all
  from get_action_at_step [OF tr qf H k cfg cnt cache]
  obtain x c where c: "predict_chunk alg (os ! (k - k mod ?q)) = Inr c"
    and ga: "get_action ?st (os ! k)
               = (Inr (map (\<lambda>sample. sample ! (k mod ?q)) c),
                  ?st\<lparr>policy_calls :=
                        (if k mod ?q = 0 then policy_calls ?st @ [policy_query x]
                         else policy_calls ?st),
                     a_hat_store := Some c,
                     step_counter := int k + 1\<rparr>)"
    by blast
  have nxt: "snd (rollout (reset alg) (take (Suc k) os))
             = ?st\<lparr>policy_calls :=
                        (if k mod ?q = 0 then policy_calls ?st @ [policy_query x]
                         else policy_calls ?st),
                     a_hat_store := Some c,
                     step_counter := int k + 1\<rparr>"
    by (simp add: rollout_take_Suc [OF k] rollout_step_def ga)
  have w: "Suc k - Suc k mod ?q = k - k mod ?q" if "Suc k mod ?q \<noteq> 0"
    using that by (rule window_start_Suc)
  show ?case
    unfolding nxt using cfg c w by (simp add: same_config_def)
qed

lemma ex_action_inputs:
  "action_inputs ex_alg ex_obs = Inr ([[1, 2], [3, 4]], [(), ()], replicate 2 (replicate 10 0))"
  by (simp add: action_inputs_def lookup_obs_def ex_obs_simps as_low_dim_def
      cat_axis1_def load_image_def ex_alg_def r2 upt2)

lemma ex_predict_chunk:
  "predict_chunk ex_alg ex_obs = Inr (replicate 2 (replicate 5 [0, 0, 0]))"
  by (simp add: predict_chunk_def ex_action_inputs policy_query_def)
     (simp add: ex_alg_def ex_policy_def numeral_2_eq_2)

text \<open>
  C1. Take an evaluation-mode object with a positive query frequency, reset it, and call
  \<open>get_action\<close> on a sequence of observations for which the forward pass predicts
  chunks of at least \<open>query_frequency\<close> timesteps. At the call number \<open>k\<close>
  (counted from 0) the step counter is \<open>k\<close>; the policy is invoked exactly when
  \<open>k mod query_frequency = 0\<close> and its chunk is cached; the call returns timestep
  \<open>k mod query_frequency\<close> of the chunk predicted at call
  \<open>k - k mod query_frequency\<close>, the same chunk for \<open>query_frequency\<close> calls
  in a row; and the counter becomes \<open>k + 1\<close>. The object before the reset is
  arbitrary, so the first call after a reset behaves as step 0.
\<close>

theorem chunked_inference_cache:
  assumes tr: "\<not> training alg" and qf: "0 < query_frequency alg"
      and H: "\<forall>obs_dict \<in> set os. \<exists>c. predict_chunk alg obs_dict = Inr c \<and> chunk_ok (query_frequency alg) c"
      and k: "k < length os"
  shows "\<exists>x c.
           step_counter (snd (rollout (reset alg) (take k os))) = int k
         \<and> step_counter (snd (rollout (reset alg) (take k os))) mod query_frequency alg
             = int (k mod nat (query_frequency alg))
         \<and> action_inputs alg (os ! k) = Inr x
         \<and> predict_chunk alg (os ! (k - k mod nat (query_frequency alg))) = Inr c
         \<and> get_action (snd (rollout (reset alg) (take k os))) (os ! k)
             = (Inr (map (\<lambda>sample. sample ! (k mod nat (query_frequency alg))) c),
                (snd (rollout (reset alg) (take k os)))
                  \<lparr>policy_calls :=
                     (if k mod nat (query_frequency alg) = 0
                      then policy_calls (snd (rollout (reset alg) (take k os))) @ [policy_query x]
                      else policy_calls (snd (rollout (reset alg) (take k os)))),
                   a_hat_store := Some c,
                   step_counter := int k + 1\<rparr>)
         \<and> rollout (reset alg) (take (Suc k) os)
             = (fst (rollout (reset alg) (take k os))
                  @ [fst (get_action (snd (rollout (reset alg) (take k os))) (os ! k))],
                snd (get_action (snd (rollout (reset alg) (take k os))) (os ! k)))"
proof -
  let ?st = "snd (rollout (reset alg) (take k os))"
  let ?q = "nat (query_frequency alg)"
  from k have "k \<le> length os" by simp
  from rollout_invariant [OF tr qf H this]
  have cfg: "same_config ?st alg" and cnt: "step_counter ?st = int k"
    and cache: "k mod ?q \<noteq> 0 \<longrightarrow>
                  (\<exists>c. predict_chunk alg (os ! (k - k mod ?q)) = Inr c \<and> a_hat_store ?st = Some c)"
    by simp_all
  from get_action_at_step [OF tr qf H k cfg cnt cache]
  obtain x c where x: "action_inputs alg (os ! k) = Inr x"
    and c: "predict_chunk alg (os ! (k - k mod ?q)) = Inr c"
    and ga: "get_action ?st (os ! k)
               = (Inr (map (\<lambda>sample. sample ! (k mod ?q)) c),
                  ?st\<lparr>policy_calls :=
                        (if k mod ?q = 0 then policy_calls ?st @ [policy_query x]
                         else policy_calls ?st),
                     a_hat_store := Some c,
                     step_counter := int k + 1\<rparr>)"
    by blast
  have m: "step_counter ?st mod query_frequency alg = int (k mod ?q)"
    using cnt int_mod_nat [OF qf] by simp
  have r: "rollout (reset alg) (take (Suc k) os)
             = (fst (rollout (reset alg) (take k os)) @ [fst (get_action ?st (os ! k))],
                snd (get_action ?st (os ! k)))"
    by (simp add: rollout_take_Suc [OF k] rollout_step_def case_prod_unfold)
  from cnt m x c ga r show ?thesis
    by (intro exI [of _ x] exI [of _ c]) (intro conjI)
qed

theorem chunked_inference_cache_witness:
  "\<not> training ex_alg \<and> 0 < query_frequency ex_alg
   \<and> predict_chunk ex_alg ex_obs = Inr (replicate 2 (replicate 5 [0, 0, 0]))
   \<and> chunk_ok (query_frequency ex_alg) (replicate 2 (replicate 5 [0, 0, 0]))
   \<and> (6::nat) < length (replicate 7 ex_obs)
   \<and> step_counter (snd (rollout (reset ex_alg) (take 6 (replicate 7 ex_obs)))) = 6
   \<and> fst (get_action (snd (rollout (reset ex_alg) (take 6 (replicate 7 ex_obs)))) ex_obs)
       = Inr [[0, 0, 0], [0, 0, 0]]
   \<and> policy_calls (snd (get_action (snd (rollout (reset ex_alg) (take 6 (replicate 7 ex_obs)))) ex_obs))
       = policy_calls (snd (rollout (reset ex_alg) (take 6 (replicate 7 ex_obs))))"
proof -
  have tr: "\<not> training ex_alg" and qf: "0 < query_frequency ex_alg"
    and q5: "query_frequency ex_alg = 5"
    by (simp_all add: ex_alg_def)
  have ok: "chunk_ok (query_frequency ex_alg) (replicate 2 (replicate 5 [0, 0, 0]))"
    by (simp add: chunk_ok_def q5 list_all_iff)
  have H: "\<forall>obs_dict \<in> set (replicate 7 ex_obs).
         \<exists>c. predict_chunk ex_alg obs_dict = Inr c \<and> chunk_ok (query_frequency ex_alg) c"
    using ex_predict_chunk ok by auto
  have k: "(6::nat) < length (replicate 7 ex_obs)" by simp
  from chunked_inference_cache [OF tr qf H k]
  obtain x c where
    cnt: "step_counter (snd (rollout (reset ex_alg) (take 6 (replicate 7 ex_obs)))) = int 6"
    and c: "predict_chunk ex_alg (replicate 7 ex_obs ! (6 - 6 mod nat (query_frequency ex_alg))) = Inr c"
    and ga: "get_action (snd (rollout (reset ex_alg) (take 6 (replicate 7 ex_obs)))) (replicate 7 ex_obs ! 6)
             = (Inr (map (\<lambda>sample. sample ! (6 mod nat (query_frequency ex_alg))) c),
                (snd (rollout (reset ex_alg) (take 6 (replicate 7 ex_obs))))
                  \<lparr>policy_calls :=
                     (if 6 mod nat (query_frequency ex_alg) = 0
                      then policy_calls (snd (rollout (reset ex_alg) (take 6 (replicate 7 ex_obs)))) @ [policy_query x]
                      else policy_calls (snd (rollout (reset ex_alg) (take 6 (replicate 7 ex_obs))))),
                   a_hat_store := Some c,
                   step_counter := int 6 + 1\<rparr>)"
    by blast
  have n: "replicate 7 ex_obs ! 6 = ex_obs" "replicate 7 ex_obs ! (6 - 6 mod nat 5) = ex_obs"
    by simp_all
  from c have ceq: "c = replicate 2 (replicate 5 [0, 0, 0])"
    by (simp add: q5 n ex_predict_chunk)
  have "fst (get_action (snd (rollout (reset ex_alg) (take 6 (replicate 7 ex_obs)))) ex_obs)
       = Inr [[0, 0, 0], [0, 0, 0]]"
    using ga by (simp add: n q5 ceq r2 r5)
  moreover have "policy_calls (snd (get_action (snd (rollout (reset ex_alg) (take 6 (replicate 7 ex_obs)))) ex_obs))
       = policy_calls (snd (rollout (reset ex_alg) (take 6 (replicate 7 ex_obs))))"
    using ga by (simp add: n q5)
  ultimately show ?thesis using tr qf ex_predict_chunk ok k cnt by simp
qed

section \<open>Empty tags\<close>

text \<open>
  C10. A batch whose \<open>type\<close> tensor has no element passes the modality check as
  "robot": the test for all-equal-0 is vacuously true (as the one for all-equal-1 is) and
  it is tried first, so no error is raised.
\<close>

theorem modality_check_empty_tag:
  "modality_check (batch\<lparr>type_tag := []\<rparr>) = Inr ''robot''
   \<and> list_all (\<lambda>t. t = (0::int)) [] \<and> list_all (\<lambda>t. t = (1::int)) []"
  by (simp add: modality_check_def)

end
